theory Spec2Isabelle
  imports Main
begin

section \<open>Values exchanged with the realtime feed\<close>

text \<open>
  Inbound frames are the result of \<^verbatim>\<open>JSON.parse\<close>, so a payload is a JSON tree.
  A JavaScript object is a finite map from property names to values; reading a name
  that is not there yields \<^verbatim>\<open>undefined\<close>, which is \<open>None\<close> of \<open>json option\<close>
  throughout (a JSON tree itself never contains \<^verbatim>\<open>undefined\<close>).
  The code in scope does no arithmetic on numbers. A number is kept as what this code can
  observe of it: the text ToString gives it (\<^verbatim>\<open>2850\<close>, \<^verbatim>\<open>-1.5\<close>, \<^verbatim>\<open>1e+21\<close>), which
  tells numbers apart, and the time value \<^verbatim>\<open>new Date\<close> gives it (\<open>None\<close> for an invalid
  date). \<^verbatim>\<open>JSON.parse\<close> yields no NaN and no infinity.
\<close>

datatype number = Number (number_text: string) (number_time: "int option")

datatype json =
    JNull
  | JBool bool
  | JNum number
  | JStr string
  | JArr "json list"
  | JObj "string \<Rightarrow> json option"

datatype js_error = TypeError | ReferenceError

subsection \<open>ToString and property keys\<close>

definition digit_char :: "nat \<Rightarrow> char" where
  "digit_char d = ''0123456789'' ! d"

function show_nat :: "nat \<Rightarrow> string" where
  "show_nat n =
     (if n < 10 then [digit_char n] else show_nat (n div 10) @ [digit_char (n mod 10)])"
  by pat_completeness auto
termination
  by (relation "measure id") auto

definition time_clip :: "int \<Rightarrow> int option" where
  "time_clip t = (if \<bar>t\<bar> \<le> 8640000000000000 then Some t else None)"

text \<open>
  The number that is the clock reading of \<open>n\<close> milliseconds: a time value is an integer
  of magnitude at most \<open>8.64 * 10^15\<close>, and ToString of such a number is its plain
  decimal numeral. It names the clock readings of the hosts in the examples.
\<close>

definition clock_number :: "int \<Rightarrow> number" where
  "clock_number n =
     Number (if n < 0 then ''-'' @ show_nat (nat (- n)) else show_nat (nat n)) (time_clip n)"

fun join_comma :: "string list \<Rightarrow> string" where
  "join_comma [] = []"
| "join_comma [s] = s"
| "join_comma (s # t # ss) = s @ '','' @ join_comma (t # ss)"

text \<open>
  ToString of a JSON value: an array joins the strings of its elements with commas,
  a \<^verbatim>\<open>null\<close> element giving the empty string; a plain object is \<^verbatim>\<open>[object Object]\<close>.
\<close>

fun json_to_string :: "json \<Rightarrow> string" where
  "json_to_string JNull = ''null''"
| "json_to_string (JBool b) = (if b then ''true'' else ''false'')"
| "json_to_string (JNum n) = number_text n"
| "json_to_string (JStr s) = s"
| "json_to_string (JArr xs) =
     join_comma (map (\<lambda>x. case x of JNull \<Rightarrow> [] | _ \<Rightarrow> json_to_string x) xs)"
| "json_to_string (JObj m) = ''[object Object]''"

text \<open>
  A computed property key \<^verbatim>\<open>[e]\<close> and a template substitution \<^verbatim>\<open>${e}\<close> both
  apply ToString; \<^verbatim>\<open>undefined\<close> becomes the string \<^verbatim>\<open>undefined\<close>.
\<close>

fun to_string :: "json option \<Rightarrow> string" where
  "to_string None = ''undefined''"
| "to_string (Some v) = json_to_string v"

subsection \<open>Member access and object spread\<close>

text \<open>
  \<^verbatim>\<open>v.name\<close>: a TypeError on \<^verbatim>\<open>undefined\<close> and \<^verbatim>\<open>null\<close>, the property of an
  object, and \<^verbatim>\<open>undefined\<close> on every other value: the names the code reads
  (\<^verbatim>\<open>type\<close>, \<^verbatim>\<open>data\<close>, \<^verbatim>\<open>pair_id\<close>, \<^verbatim>\<open>symbol\<close>, \<^verbatim>\<open>timestamp\<close>, \<^verbatim>\<open>message\<close>)
  are neither indices nor \<^verbatim>\<open>length\<close> nor inherited from a prototype.
\<close>

fun get_prop :: "json option \<Rightarrow> string \<Rightarrow> js_error + json option" where
  "get_prop None k = Inl TypeError"
| "get_prop (Some JNull) k = Inl TypeError"
| "get_prop (Some (JObj m)) k = Inr (m k)"
| "get_prop (Some v) k = Inr None"

definition indexed :: "'a list \<Rightarrow> (string \<Rightarrow> 'a option)" where
  "indexed xs = map_of (zip (map show_nat [0..<length xs]) xs)"

text \<open>
  \<^verbatim>\<open>{...v}\<close> copies the own enumerable properties of \<^verbatim>\<open>v\<close>: the fields of an
  object, the elements of an array and the characters of a string under their indices,
  nothing for \<^verbatim>\<open>undefined\<close>, \<^verbatim>\<open>null\<close>, a boolean or a number.
\<close>

fun own_props :: "json option \<Rightarrow> (string \<Rightarrow> json option)" where
  "own_props (Some (JObj m)) = m"
| "own_props (Some (JArr xs)) = indexed xs"
| "own_props (Some (JStr s)) = indexed (map (\<lambda>c. JStr [c]) s)"
| "own_props _ = Map.empty"

fun is_str :: "json option \<Rightarrow> string \<Rightarrow> bool" where
  "is_str (Some (JStr s)) t = (s = t)"
| "is_str _ t = False"

text \<open>Truthiness: of the numbers only zero is falsy, the one number whose text is \<^verbatim>\<open>0\<close>.\<close>

fun truthy :: "json \<Rightarrow> bool" where
  "truthy JNull = False"
| "truthy (JBool b) = b"
| "truthy (JNum n) = (number_text n \<noteq> ''0'')"
| "truthy (JStr s) = (s \<noteq> [])"
| "truthy _ = True"

section \<open>The state synchronizer (RealtimeContext)\<close>

text \<open>
  A stored alert is the object literal
  \<^verbatim>\<open>{...message.data, id: Date.now(), timestamp: new Date(message.data.timestamp)}\<close>:
  its fields are JSON values except \<^verbatim>\<open>timestamp\<close>, a Date whose time value is a
  number of milliseconds or NaN (an invalid date, \<open>None\<close>).
\<close>

datatype field = Plain json | DateObj "int option"

type_synonym alert = "string \<Rightarrow> field option"

record state =
  pairs :: "string \<Rightarrow> json option"
  alerts :: "alert list"
  prices :: "string \<Rightarrow> json option"
  systemStatus :: "string \<Rightarrow> json option"

definition initialState :: state where
  "initialState =
     \<lparr>pairs = Map.empty, alerts = [], prices = Map.empty,
      systemStatus = [''monitoring'' \<mapsto> JBool False, ''connections'' \<mapsto> JNum (Number ''0'' (Some 0))]\<rparr>"

datatype action =
    UPDATE_PAIR "json option"
  | ADD_ALERT alert
  | UPDATE_PRICE "json option"
  | UPDATE_SYSTEM_STATUS "json option"
  | CLEAR_ALERTS
  | OTHER_ACTION

text \<open>
  The reducer. \<^verbatim>\<open>action.payload.pair_id\<close> and \<^verbatim>\<open>action.payload.symbol\<close> raise a
  TypeError on an \<^verbatim>\<open>undefined\<close> or \<^verbatim>\<open>null\<close> payload; \<^verbatim>\<open>state.pairs[k]\<close> of a
  missing key is \<^verbatim>\<open>undefined\<close> (or an inherited member with no enumerable property of
  its own), whose spread adds nothing. \<^verbatim>\<open>slice(0, 49)\<close> is \<open>take 49\<close>.
\<close>

fun realtimeReducer :: "state \<Rightarrow> action \<Rightarrow> js_error + state" where
  "realtimeReducer s (UPDATE_PAIR p) =
     (case get_prop p ''pair_id'' of
        Inl e \<Rightarrow> Inl e
      | Inr k \<Rightarrow>
          Inr (s\<lparr>pairs := (pairs s)
                 (to_string k \<mapsto> JObj (own_props (pairs s (to_string k)) ++ own_props p))\<rparr>))"
| "realtimeReducer s (ADD_ALERT a) = Inr (s\<lparr>alerts := a # take 49 (alerts s)\<rparr>)"
| "realtimeReducer s (UPDATE_PRICE p) =
     (case get_prop p ''symbol'' of
        Inl e \<Rightarrow> Inl e
      | Inr k \<Rightarrow>
          (case p of
             None \<Rightarrow> Inl TypeError
           | Some v \<Rightarrow> Inr (s\<lparr>prices := (prices s)(to_string k \<mapsto> v)\<rparr>)))"
| "realtimeReducer s (UPDATE_SYSTEM_STATUS p) =
     Inr (s\<lparr>systemStatus := systemStatus s ++ own_props p\<rparr>)"
| "realtimeReducer s CLEAR_ALERTS = Inr (s\<lparr>alerts := []\<rparr>)"
| "realtimeReducer s OTHER_ACTION = Inr s"

subsection \<open>The host: clock, date parsing, notifications\<close>

datatype permission = Default | Granted | Denied

text \<open>
  What one call reads from the browser: \<^verbatim>\<open>Date.now()\<close>, \<^verbatim>\<open>Date.parse\<close>, whether
  \<^verbatim>\<open>'Notification' in window\<close> holds and then \<^verbatim>\<open>Notification.permission\<close>
  (\<open>None\<close> when the host has no Notification API), and what
  \<^verbatim>\<open>Notification.requestPermission()\<close> resolves to.
\<close>

record host =
  now :: number
  date_parse :: "string \<Rightarrow> int option"
  notification :: "permission option"
  requestPermission :: permission

fun new_Date :: "(string \<Rightarrow> int option) \<Rightarrow> json option \<Rightarrow> int option" where
  "new_Date parse None = None"
| "new_Date parse (Some JNull) = Some 0"
| "new_Date parse (Some (JBool b)) = Some (if b then 1 else 0)"
| "new_Date parse (Some (JNum n)) = number_time n"
| "new_Date parse (Some v) = parse (json_to_string v)"

datatype effect =
    ShowNotification string "json option"
  | ConsoleLog "json option"

definition alert_payload :: "host \<Rightarrow> json option \<Rightarrow> json option \<Rightarrow> alert" where
  "alert_payload h d ts =
     (map_option Plain \<circ> own_props d)
       (''id'' \<mapsto> Plain (JNum (now h)),
        ''timestamp'' \<mapsto> DateObj (new_Date (date_parse h) ts))"

text \<open>
  \<^verbatim>\<open>handleWebSocketMessage\<close>: the \<^verbatim>\<open>switch\<close> compares \<^verbatim>\<open>message.type\<close> with each
  string by strict equality, in the source's order. \<^verbatim>\<open>dispatch\<close> applies the reducer
  to the state. In the \<^verbatim>\<open>alert\<close> case \<^verbatim>\<open>message.data.timestamp\<close> raises a
  TypeError before any dispatch when \<^verbatim>\<open>data\<close> is \<^verbatim>\<open>undefined\<close> or \<^verbatim>\<open>null\<close>; the
  notification is built after the dispatch, when the API exists and permission is granted.
\<close>

definition show_alert_notification :: "host \<Rightarrow> json option \<Rightarrow> js_error + effect list" where
  "show_alert_notification h d =
     (if notification h = Some Granted then
        (case get_prop d ''type'' of
           Inl e \<Rightarrow> Inl e
         | Inr ty \<Rightarrow>
             (case get_prop d ''message'' of
                Inl e \<Rightarrow> Inl e
              | Inr body \<Rightarrow>
                  Inr [ShowNotification (''Pair Trading Alert: '' @ to_string ty) body]))
      else Inr [])"

definition handleWebSocketMessage ::
    "host \<Rightarrow> state \<Rightarrow> json \<Rightarrow> js_error + state \<times> effect list" where
  "handleWebSocketMessage h s message =
     (case get_prop (Some message) ''type'' of
        Inl e \<Rightarrow> Inl e
      | Inr t \<Rightarrow>
          if is_str t ''pair_update'' then
            (case get_prop (Some message) ''data'' of
               Inl e \<Rightarrow> Inl e
             | Inr d \<Rightarrow>
                 (case realtimeReducer s (UPDATE_PAIR d) of
                    Inl e \<Rightarrow> Inl e
                  | Inr s' \<Rightarrow> Inr (s', [])))
          else if is_str t ''alert'' then
            (case get_prop (Some message) ''data'' of
               Inl e \<Rightarrow> Inl e
             | Inr d \<Rightarrow>
                 (case get_prop d ''timestamp'' of
                    Inl e \<Rightarrow> Inl e
                  | Inr ts \<Rightarrow>
                      (case realtimeReducer s (ADD_ALERT (alert_payload h d ts)) of
                         Inl e \<Rightarrow> Inl e
                       | Inr s' \<Rightarrow>
                           (case show_alert_notification h d of
                              Inl e \<Rightarrow> Inl e
                            | Inr out \<Rightarrow> Inr (s', out)))))
          else if is_str t ''price_update'' then
            (case get_prop (Some message) ''data'' of
               Inl e \<Rightarrow> Inl e
             | Inr d \<Rightarrow>
                 (case realtimeReducer s (UPDATE_PRICE d) of
                    Inl e \<Rightarrow> Inl e
                  | Inr s' \<Rightarrow> Inr (s', [])))
          else if is_str t ''system_status'' then
            (case get_prop (Some message) ''data'' of
               Inl e \<Rightarrow> Inl e
             | Inr d \<Rightarrow>
                 (case realtimeReducer s (UPDATE_SYSTEM_STATUS d) of
                    Inl e \<Rightarrow> Inl e
                  | Inr s' \<Rightarrow> Inr (s', [])))
          else if is_str t ''pong'' then Inr (s, [])
          else Inr (s, [ConsoleLog t]))"

text \<open>
  The effect that feeds the handler runs it only on a truthy \<^verbatim>\<open>lastMessage\<close>.
\<close>

definition onLastMessage :: "host \<Rightarrow> state \<Rightarrow> json \<Rightarrow> js_error + state \<times> effect list" where
  "onLastMessage h s message =
     (if truthy message then handleWebSocketMessage h s message else Inr (s, []))"

text \<open>
  The values of \<^verbatim>\<open>lastMessage\<close> the effect runs on are applied one at a time in arrival
  order, each with the host as it is at that moment; an exception ends the run.
\<close>

fun process :: "state \<Rightarrow> (host \<times> json) list \<Rightarrow> js_error + state" where
  "process s [] = Inr s"
| "process s ((h, m) # rest) =
     (case onLastMessage h s m of Inl e \<Rightarrow> Inl e | Inr (s', out) \<Rightarrow> process s' rest)"

section \<open>The connection manager (useWebSocket)\<close>

datatype ready_state = CONNECTING | OPEN | CLOSING | CLOSED

text \<open>
  Every \<^verbatim>\<open>new WebSocket(url)\<close> is a transport of its own, named by its index in the
  list of transports constructed so far. A transport records its \<^verbatim>\<open>readyState\<close> and the
  frames handed to \<^verbatim>\<open>ws.send\<close>, each kept as the value given to \<^verbatim>\<open>JSON.stringify\<close>.
\<close>

record transport =
  readyState :: ready_state
  sent :: "json list"

datatype timer_status = Pending | Fired | Cleared

text \<open>
  The hook's state and refs, with the timers created by \<^verbatim>\<open>setTimeout\<close> (delay in
  milliseconds and status, named by index), the transports whose ping interval runs, and
  \<open>effectSocket\<close>: the value \<^verbatim>\<open>socket\<close> had in the render whose effect ran last, which is
  the one the \<^verbatim>\<open>disconnect\<close> of that effect's cleanup closes over.
\<close>

record client =
  transports :: "transport list"
  socket :: "nat option"
  isConnected :: bool
  lastMessage :: "json option"
  connectionError :: "string option"
  reconnectTimeout :: "nat option"
  reconnectAttempts :: nat
  timers :: "(nat \<times> timer_status) list"
  pingIntervals :: "nat list"
  effectSocket :: "nat option"

definition initialClient :: client where
  "initialClient =
     \<lparr>transports = [], socket = None, isConnected = False, lastMessage = None,
      connectionError = None, reconnectTimeout = None, reconnectAttempts = 0,
      timers = [], pingIntervals = [], effectSocket = None\<rparr>"

definition maxReconnectAttempts :: nat where
  "maxReconnectAttempts = 5"

definition ready :: "client \<Rightarrow> nat \<Rightarrow> ready_state option" where
  "ready c i = (if i < length (transports c) then Some (readyState (transports c ! i)) else None)"

definition set_ready :: "nat \<Rightarrow> ready_state \<Rightarrow> client \<Rightarrow> client" where
  "set_ready i r c =
     (if i < length (transports c)
      then c\<lparr>transports := (transports c)[i := (transports c ! i)\<lparr>readyState := r\<rparr>]\<rparr>
      else c)"

definition ws_send :: "nat \<Rightarrow> json \<Rightarrow> client \<Rightarrow> client" where
  "ws_send i frame c =
     (if i < length (transports c)
      then c\<lparr>transports :=
               (transports c)[i := (transports c ! i)\<lparr>sent := sent (transports c ! i) @ [frame]\<rparr>]\<rparr>
      else c)"

text \<open>
  \<^verbatim>\<open>connect\<close>: the argument says whether \<^verbatim>\<open>new WebSocket(url)\<close> returns (otherwise it
  throws and the \<^verbatim>\<open>catch\<close> records the error). Nothing is tested before the transport is
  constructed and stored.
\<close>

definition connect :: "bool \<Rightarrow> client \<Rightarrow> client" where
  "connect constructed c =
     (if constructed
      then c\<lparr>transports := transports c @ [\<lparr>readyState = CONNECTING, sent = []\<rparr>],
             socket := Some (length (transports c))\<rparr>
      else c\<lparr>connectionError := Some ''Failed to create WebSocket connection''\<rparr>)"

text \<open>The open event of transport \<open>i\<close>, which the browser fires with the transport open.\<close>

definition ws_onopen :: "nat \<Rightarrow> client \<Rightarrow> client" where
  "ws_onopen i c =
     (set_ready i OPEN c)
       \<lparr>isConnected := True, connectionError := None, reconnectAttempts := 0,
        pingIntervals := pingIntervals c @ [i]\<rparr>"

text \<open>A tick of the 30 second interval started when transport \<open>i\<close> opened.\<close>

definition ping_tick :: "nat \<Rightarrow> client \<Rightarrow> client" where
  "ping_tick i c =
     (if i \<in> set (pingIntervals c) then
        (if ready c i = Some OPEN then ws_send i (JObj [''type'' \<mapsto> JStr ''ping'']) c
         else c\<lparr>pingIntervals := removeAll i (pingIntervals c)\<rparr>)
      else c)"


text \<open>
  The close event of transport \<open>i\<close> with its close code. A reconnect is scheduled with
  \<^verbatim>\<open>setTimeout\<close> after \<^verbatim>\<open>Math.pow(2, attempts) * 1000\<close> milliseconds when the code is not
  1000 and fewer than 5 attempts were made.
\<close>

definition ws_onclose :: "nat \<Rightarrow> nat \<Rightarrow> client \<Rightarrow> client" where
  "ws_onclose i code c =
     (let c1 = (set_ready i CLOSED c)\<lparr>isConnected := False, socket := None\<rparr>
      in if code \<noteq> 1000 \<and> reconnectAttempts c1 < maxReconnectAttempts
         then c1\<lparr>timers := timers c1 @ [(2 ^ reconnectAttempts c1 * 1000, Pending)],
                 reconnectTimeout := Some (length (timers c1))\<rparr>
         else c1)"

definition ws_onerror :: "nat \<Rightarrow> client \<Rightarrow> client" where
  "ws_onerror i c = c\<lparr>connectionError := Some ''WebSocket connection error''\<rparr>"

text \<open>
  The callback of reconnect timer \<open>t\<close>, run when the timer is still pending: it counts
  the attempt and calls \<^verbatim>\<open>connect()\<close>.
\<close>

definition timer_fire :: "nat \<Rightarrow> bool \<Rightarrow> client \<Rightarrow> client" where
  "timer_fire t constructed c =
     (if t < length (timers c) \<and> snd (timers c ! t) = Pending
      then connect constructed
             (c\<lparr>timers := (timers c)[t := (fst (timers c ! t), Fired)],
                reconnectAttempts := reconnectAttempts c + 1\<rparr>)
      else c)"

definition clearTimeout :: "nat \<Rightarrow> client \<Rightarrow> client" where
  "clearTimeout t c =
     (if t < length (timers c) \<and> snd (timers c ! t) = Pending
      then c\<lparr>timers := (timers c)[t := (fst (timers c ! t), Cleared)]\<rparr>
      else c)"

text \<open>\<^verbatim>\<open>socket.close(1000, ...)\<close> starts the closing handshake of a transport not yet closed.\<close>

definition ws_close :: "nat \<Rightarrow> client \<Rightarrow> client" where
  "ws_close i c =
     (if ready c i = Some CLOSED \<or> ready c i = Some CLOSING then c else set_ready i CLOSING c)"

text \<open>
  \<^verbatim>\<open>disconnect\<close> is created anew whenever \<^verbatim>\<open>socket\<close> changes (\<^verbatim>\<open>useCallback\<close> with
  dependency \<^verbatim>\<open>[socket]\<close>) and closes over the value of that render: its first argument.
  The timeout ref is read when the callback runs.
\<close>

definition disconnect :: "nat option \<Rightarrow> client \<Rightarrow> client" where
  "disconnect captured c =
     (let c1 = (case reconnectTimeout c of None \<Rightarrow> c | Some t \<Rightarrow> clearTimeout t c)
      in case captured of None \<Rightarrow> c1 | Some i \<Rightarrow> ws_close i c1)"

text \<open>
  \<^verbatim>\<open>sendMessage\<close> returns its boolean together with the client, in which the frame is
  recorded when it was handed to the transport.
\<close>

definition sendMessage :: "json \<Rightarrow> client \<Rightarrow> bool \<times> client" where
  "sendMessage message c =
     (case socket c of
        None \<Rightarrow> (False, c)
      | Some i \<Rightarrow> if ready c i = Some OPEN then (True, ws_send i message c) else (False, c))"

subsection \<open>The effect of the mounted hook\<close>

text \<open>
  \<^verbatim>\<open>useEffect(() => { connect(); return () => { disconnect() } }, [connect, disconnect])\<close>.
  The first render runs the effect body: \<^verbatim>\<open>connect()\<close>, in a render where \<^verbatim>\<open>socket\<close>
  is \<^verbatim>\<open>null\<close>.
\<close>

definition mount :: "bool \<Rightarrow> client" where
  "mount constructed = connect constructed initialClient"

text \<open>
  A later commit runs the effect again exactly when a dependency changed: \<^verbatim>\<open>connect\<close>
  never does, \<^verbatim>\<open>disconnect\<close> does when \<^verbatim>\<open>socket\<close> differs from its value in the render
  whose effect ran last. Then the cleanup of that effect runs its \<^verbatim>\<open>disconnect\<close>, and the
  body calls \<^verbatim>\<open>connect()\<close>, which stores a new socket for the next render.
\<close>

definition connection_effect :: "bool \<Rightarrow> client \<Rightarrow> client" where
  "connection_effect constructed c =
     (if socket c = effectSocket c then c
      else connect constructed ((disconnect (effectSocket c) c)\<lparr>effectSocket := socket c\<rparr>))"

definition newest :: "client \<Rightarrow> nat" where
  "newest c = length (transports c) - 1"

text \<open>
  A closure in the mounted hook: the transport constructed last closes with the given
  code, and React commits; the effect's \<^verbatim>\<open>connect()\<close> having stored a new socket, it
  commits once more.
\<close>

definition mounted_closure :: "nat \<Rightarrow> client \<Rightarrow> client" where
  "mounted_closure code c =
     connection_effect True (connection_effect True (ws_onclose (newest c) code c))"

fun mounted_closures :: "nat list \<Rightarrow> client \<Rightarrow> client" where
  "mounted_closures [] c = c"
| "mounted_closures (code # codes) c = mounted_closures codes (mounted_closure code c)"

text \<open>The hook after its mount and the two commits that follow it.\<close>

definition mounted_hook :: client where
  "mounted_hook = connection_effect True (connection_effect True (mount True))"

text \<open>Whether the stored socket is open.\<close>

definition connection_open :: "client \<Rightarrow> bool" where
  "connection_open c = (case socket c of None \<Rightarrow> False | Some i \<Rightarrow> ready c i = Some OPEN)"

text \<open>Close code 1006, an abnormal closure.\<close>

definition abnormal :: nat where
  "abnormal = 1006"

definition delays :: "client \<Rightarrow> nat list" where
  "delays c = map fst (timers c)"

definition pending :: "client \<Rightarrow> nat list" where
  "pending c = map fst (filter (\<lambda>t. snd t = Pending) (timers c))"

section \<open>From inbound frames to handled messages\<close>

text \<open>
  The provider holds the synchronizer's state and the hook. Its effect
  \<^verbatim>\<open>useEffect(() => { if (lastMessage) handleWebSocketMessage(lastMessage) }, [lastMessage])\<close>
  runs at a commit when \<^verbatim>\<open>lastMessage\<close> is not the value of the previous render
  (\<^verbatim>\<open>Object.is\<close>): a newly parsed object or array is never the previous value, other values
  are compared as values. \<open>seenMessage\<close> is the value at the previous render and
  \<open>freshMessage\<close> says that a newly parsed object or array was stored since.
\<close>

record provider =
  sync :: state
  hook :: client
  seenMessage :: "json option"
  freshMessage :: bool


fun is_reference :: "json \<Rightarrow> bool" where
  "is_reference (JArr xs) = True"
| "is_reference (JObj m) = True"
| "is_reference _ = False"




datatype inbound = Frame "json option" | Commit host bool


section \<open>The command API\<close>

datatype command =
    StartMonitoring
  | StopMonitoring
  | SubscribeToPair json
  | ClearAlerts

text \<open>
  Each command acts on the synchronizer's state and on the client; the boolean of
  \<^verbatim>\<open>sendMessage\<close> is dropped by the three sending commands, as in the source.
\<close>

fun actions :: "command \<Rightarrow> state \<times> client \<Rightarrow> js_error + state \<times> client" where
  "actions StartMonitoring (s, c) =
     Inr (s, snd (sendMessage (JObj [''type'' \<mapsto> JStr ''start_monitoring'']) c))"
| "actions StopMonitoring (s, c) =
     Inr (s, snd (sendMessage (JObj [''type'' \<mapsto> JStr ''stop_monitoring'']) c))"
| "actions (SubscribeToPair pairId) (s, c) =
     Inr (s, snd (sendMessage
                    (JObj [''type'' \<mapsto> JStr ''subscribe_pair'', ''pair_id'' \<mapsto> pairId]) c))"
| "actions ClearAlerts (s, c) =
     (case realtimeReducer s CLEAR_ALERTS of Inl e \<Rightarrow> Inl e | Inr s' \<Rightarrow> Inr (s', c))"

text \<open>
  \<^verbatim>\<open>requestNotificationPermission\<close>: the value the promise resolves to, or the error it
  rejects with. The second \<^verbatim>\<open>return\<close> reads \<^verbatim>\<open>Notification.permission\<close> without the
  \<^verbatim>\<open>'Notification' in window\<close> test of the first branch: with no such global the
  identifier is unresolvable, a ReferenceError.
\<close>

definition requestNotificationPermission :: "host \<Rightarrow> js_error + bool" where
  "requestNotificationPermission h =
     (if notification h \<noteq> None \<and> notification h = Some Default
      then Inr (requestPermission h = Granted)
      else (case notification h of
              None \<Rightarrow> Inl ReferenceError
            | Some p \<Rightarrow> Inr (p = Granted)))"

section \<open>Notions used to state the properties\<close>

text \<open>Reading a property where a failed read counts as \<^verbatim>\<open>undefined\<close>.\<close>

definition read_prop :: "json option \<Rightarrow> string \<Rightarrow> json option" where
  "read_prop v k = (case get_prop v k of Inl e \<Rightarrow> None | Inr x \<Rightarrow> x)"

definition envelope_type :: "json \<Rightarrow> json option" where
  "envelope_type m = read_prop (Some m) ''type''"

definition envelope_data :: "json \<Rightarrow> json option" where
  "envelope_data m = read_prop (Some m) ''data''"

text \<open>A payload that is present: neither \<^verbatim>\<open>undefined\<close> nor \<^verbatim>\<open>null\<close>.\<close>

fun present :: "json option \<Rightarrow> bool" where
  "present None = False"
| "present (Some JNull) = False"
| "present (Some v) = True"

definition alert_envelope :: "json \<Rightarrow> bool" where
  "alert_envelope m = (is_str (envelope_type m) ''alert'' \<and> present (envelope_data m))"

text \<open>The record the handler builds for an alert envelope.\<close>

definition alert_record :: "host \<times> json \<Rightarrow> alert" where
  "alert_record hm =
     alert_payload (fst hm) (envelope_data (snd hm))
       (read_prop (envelope_data (snd hm)) ''timestamp'')"





definition known_type :: "json option \<Rightarrow> bool" where
  "known_type t =
     (is_str t ''pair_update'' \<or> is_str t ''alert'' \<or> is_str t ''price_update''
      \<or> is_str t ''system_status'' \<or> is_str t ''pong'')"

text \<open>
  The messages that \<^verbatim>\<open>handleWebSocketMessage\<close> is called on in a run of message events
  and commits, each with the host of its commit: at a commit, the value of \<^verbatim>\<open>lastMessage\<close>
  when it changed since the previous render and is truthy. The arguments are
  \<^verbatim>\<open>lastMessage\<close>, its value at the previous render, and whether a newly parsed object or
  array was stored since.
\<close>

fun handled ::
    "json option \<Rightarrow> json option \<Rightarrow> bool \<Rightarrow> inbound list \<Rightarrow> (host \<times> json) list" where
  "handled cur seen fresh [] = []"
| "handled cur seen fresh (Frame None # es) = handled cur seen fresh es"
| "handled cur seen fresh (Frame (Some d) # es) = handled (Some d) seen (is_reference d) es"
| "handled cur seen fresh (Commit h constructed # es) =
     (if fresh \<or> cur \<noteq> seen
      then (case cur of None \<Rightarrow> [] | Some m \<Rightarrow> if truthy m then [(h, m)] else [])
      else [])
     @ handled cur cur False es"

definition handled_by :: "provider \<Rightarrow> inbound list \<Rightarrow> (host \<times> json) list" where
  "handled_by p es = handled (lastMessage (hook p)) (seenMessage p) (freshMessage p) es"


text \<open>The identifiers of the stored alerts, newest first, after a run from the initial state.\<close>

definition alert_ids :: "(host \<times> json) list \<Rightarrow> field option list" where
  "alert_ids ms =
     (case process initialState ms of
        Inl e \<Rightarrow> []
      | Inr s \<Rightarrow> map (\<lambda>a. a ''id'') (alerts s))"

definition host_at :: "int \<Rightarrow> host" where
  "host_at t = \<lparr>now = clock_number t, date_parse = Map.empty, notification = None, requestPermission = Denied\<rparr>"

definition alert_at :: "string \<Rightarrow> json" where
  "alert_at ts =
     JObj [''type'' \<mapsto> JStr ''alert'',
           ''data'' \<mapsto> JObj [''type'' \<mapsto> JStr ''zscore'', ''message'' \<mapsto> JStr ''entry'',
                             ''timestamp'' \<mapsto> JStr ts]]"


definition two :: number where
  "two = Number ''2'' (Some 2)"


definition update_P1 :: "string \<Rightarrow> number \<Rightarrow> json" where
  "update_P1 f v =
     JObj [''type'' \<mapsto> JStr ''pair_update'',
           ''data'' \<mapsto> JObj [''pair_id'' \<mapsto> JStr ''P1'', f \<mapsto> JNum v]]"

definition iso_host :: host where
  "iso_host = \<lparr>now = clock_number 1727346620000,
               date_parse = [''2024-09-26T10:30:15Z'' \<mapsto> 1727346615000],
               notification = Some Granted, requestPermission = Granted\<rparr>"

definition tagged :: "string \<Rightarrow> json" where
  "tagged t = JObj [''type'' \<mapsto> JStr t, ''data'' \<mapsto> JObj [''pair_id'' \<mapsto> JStr ''P1'']]"

section \<open>Properties of the state synchronizer\<close>

subsection \<open>Reading envelopes\<close>

lemma is_str_iff: "is_str x t \<longleftrightarrow> x = Some (JStr t)"
  by (induction x t rule: is_str.induct) auto

lemma envelope_data_obj [simp]: "envelope_data (JObj e) = e ''data''"
  by (simp add: envelope_data_def read_prop_def)

lemma envelope_type_obj [simp]: "envelope_type (JObj e) = e ''type''"
  by (simp add: envelope_type_def read_prop_def)

lemma typed_envelope:
  "is_str (envelope_type m) t \<Longrightarrow> \<exists>e. m = JObj e \<and> e ''type'' = Some (JStr t)"
  by (cases m) (simp_all add: envelope_type_def read_prop_def is_str_iff)

lemma present_get: "present d \<Longrightarrow> get_prop d k = Inr (read_prop d k)"
  by (induction d rule: present.induct) (simp_all add: read_prop_def)

lemma show_alert_notification_present:
  "present d \<Longrightarrow> \<exists>out. show_alert_notification h d = Inr out"
  by (simp add: show_alert_notification_def present_get)

subsection \<open>Alerts\<close>

lemma handle_alert:
  assumes "alert_envelope m"
  shows "\<exists>out. onLastMessage h s m =
           Inr (s\<lparr>alerts := alert_record (h, m) # take 49 (alerts s)\<rparr>, out)"
proof -
  from assms obtain e where m: "m = JObj e" and ty: "e ''type'' = Some (JStr ''alert'')"
    unfolding alert_envelope_def using typed_envelope by blast
  from assms have pd: "present (e ''data'')"
    by (simp add: alert_envelope_def m)
  obtain out where out: "show_alert_notification h (e ''data'') = Inr out"
    using show_alert_notification_present [OF pd] by blast
  show ?thesis
    by (simp add: m ty onLastMessage_def handleWebSocketMessage_def present_get [OF pd]
        alert_record_def out)
qed

lemma take_cons_take: "k \<le> 50 \<Longrightarrow> take k (r # take 49 xs) = take k (r # xs)"
  by (cases k) (simp_all add: min_def)

lemma alert_at_envelope: "alert_envelope (alert_at ts)"
  by (simp add: alert_envelope_def alert_at_def)

text \<open>
  C1. Whatever alert envelopes are processed, in a state whose alert sequence holds at
  most 50 records: the run succeeds, the new records stand in front of the old ones with
  the newest at index 0, the sequence is cut to its first 50 entries (so the entries
  dropped are the oldest), its length stays at most 50, and nothing else changes.
\<close>

theorem alerts_newest_first_bounded:
  assumes "\<forall>hm \<in> set ms. alert_envelope (snd hm)" and "length (alerts s) \<le> 50"
  shows "\<exists>s'. process s ms = Inr s'
           \<and> alerts s' = take 50 (rev (map alert_record ms) @ alerts s)
           \<and> length (alerts s') \<le> 50
           \<and> pairs s' = pairs s \<and> prices s' = prices s \<and> systemStatus s' = systemStatus s"
  using assms
proof (induction ms arbitrary: s)
  case Nil
  then show ?case by simp
next
  case (Cons hm rest)
  obtain h m where hm: "hm = (h, m)" by (cases hm)
  from Cons.prems have am: "alert_envelope m" by (simp add: hm)
  let ?s1 = "s\<lparr>alerts := alert_record (h, m) # take 49 (alerts s)\<rparr>"
  from handle_alert [OF am] obtain out where step: "onLastMessage h s m = Inr (?s1, out)"
    by blast
  have len: "length (alerts ?s1) \<le> 50" by simp
  from Cons.prems have rest: "\<forall>hm \<in> set rest. alert_envelope (snd hm)" by simp
  from Cons.IH [OF rest len] obtain s' where
    run: "process ?s1 rest = Inr s'" and
    al: "alerts s' = take 50 (rev (map alert_record rest) @ alerts ?s1)" and
    bound: "length (alerts s') \<le> 50" and
    frame: "pairs s' = pairs ?s1" "prices s' = prices ?s1" "systemStatus s' = systemStatus ?s1"
    by blast
  have "process s (hm # rest) = Inr s'" by (simp add: hm step run)
  moreover have "alerts s' = take 50 (rev (map alert_record (hm # rest)) @ alerts s)"
    using al by (simp add: hm take_cons_take)
  ultimately show ?case using bound frame by simp
qed

theorem alerts_newest_first_bounded_witness:
  "alert_envelope (alert_at ''2024-09-26T10:30:15Z'')
   \<and> length (alerts initialState) \<le> 50
   \<and> (\<exists>s'. process initialState [(host_at 1000, alert_at ''2024-09-26T10:30:15Z'')] = Inr s'
         \<and> alerts s' = [alert_record (host_at 1000, alert_at ''2024-09-26T10:30:15Z'')]
         \<and> length (alerts s') \<le> 50)
   \<and> (\<exists>s'. process initialState
               ((host_at 3, alert_at ''c'') # (host_at 2, alert_at ''b'')
                # replicate 50 (host_at 1, alert_at ''a'')) = Inr s'
         \<and> alerts s' =
              replicate 50 (alert_record (host_at 1, alert_at ''a''))
         \<and> length (alerts s') = 50)"
proof -
  have h1: "\<forall>hm \<in> set [(host_at 1000, alert_at ''2024-09-26T10:30:15Z'')]. alert_envelope (snd hm)"
    by (simp add: alert_at_envelope)
  have h2: "length (alerts initialState) \<le> 50"
    by (simp add: initialState_def)
  from alerts_newest_first_bounded [OF h1 h2] obtain s' where
    run: "process initialState [(host_at 1000, alert_at ''2024-09-26T10:30:15Z'')] = Inr s'" and
    al: "alerts s' =
           take 50 (rev (map alert_record [(host_at 1000, alert_at ''2024-09-26T10:30:15Z'')])
                    @ alerts initialState)" and
    bound: "length (alerts s') \<le> 50"
    by blast
  from al have one: "alerts s' = [alert_record (host_at 1000, alert_at ''2024-09-26T10:30:15Z'')]"
    by (simp add: initialState_def)
  let ?ms = "(host_at 3, alert_at ''c'') # (host_at 2, alert_at ''b'')
             # replicate 50 (host_at 1, alert_at ''a'')"
  have h3: "\<forall>hm \<in> set ?ms. alert_envelope (snd hm)"
    by (simp add: alert_at_envelope)
  from alerts_newest_first_bounded [OF h3 h2] obtain s'' where
    run2: "process initialState ?ms = Inr s''" and
    al2: "alerts s'' = take 50 (rev (map alert_record ?ms) @ alerts initialState)"
    by blast
  from al2 have many: "alerts s'' = replicate 50 (alert_record (host_at 1, alert_at ''a''))"
    by (simp add: initialState_def)
  then have "length (alerts s'') = 50" by simp
  with run bound one h2 alert_at_envelope run2 many show ?thesis by blast
qed

subsection \<open>Pair updates\<close>







subsection \<open>Inbound frames and the messages handled\<close>

lemma connection_effect_lastMessage [simp]:
  "lastMessage (connection_effect b c) = lastMessage c"
  by (simp add: connection_effect_def connect_def disconnect_def clearTimeout_def ws_close_def
      set_ready_def Let_def split: option.splits)

lemma handled_by_Nil [simp]: "handled_by p [] = []"
  by (simp add: handled_by_def)










subsection \<open>Envelopes that change nothing\<close>

lemma get_type_truthy:
  "truthy m \<Longrightarrow> get_prop (Some m) ''type'' = Inr (envelope_type m)"
  by (cases m) (simp_all add: envelope_type_def read_prop_def)

text \<open>
  C8. An envelope whose type is none of \<^verbatim>\<open>pair_update\<close>, \<^verbatim>\<open>alert\<close>, \<^verbatim>\<open>price_update\<close>,
  \<^verbatim>\<open>system_status\<close>, \<^verbatim>\<open>pong\<close>, and likewise a \<^verbatim>\<open>pong\<close> envelope: handling it raises
  nothing and returns the state as it was, so the envelopes after it are processed as if
  it had not arrived; a \<^verbatim>\<open>pong\<close> has no effect at all.
\<close>

theorem unknown_or_pong_ignored:
  assumes "\<not> known_type (envelope_type m) \<or> is_str (envelope_type m) ''pong''"
  shows "(\<exists>out. onLastMessage h s m = Inr (s, out))
         \<and> process s ((h, m) # rest) = process s rest
         \<and> (is_str (envelope_type m) ''pong'' \<longrightarrow> onLastMessage h s m = Inr (s, []))"
proof -
  have step: "\<exists>out. onLastMessage h s m = Inr (s, out)"
  proof (cases "truthy m")
    case False
    then show ?thesis by (simp add: onLastMessage_def)
  next
    case True
    from assms show ?thesis
      by (auto simp: onLastMessage_def handleWebSocketMessage_def True get_type_truthy
          known_type_def is_str_iff)
  qed
  have pong: "is_str (envelope_type m) ''pong'' \<longrightarrow> onLastMessage h s m = Inr (s, [])"
  proof (cases "truthy m")
    case False
    then show ?thesis by (simp add: onLastMessage_def)
  next
    case True
    show ?thesis
      by (auto simp: onLastMessage_def handleWebSocketMessage_def True get_type_truthy is_str_iff)
  qed
  from step obtain out where "onLastMessage h s m = Inr (s, out)" by blast
  then have "process s ((h, m) # rest) = process s rest" by simp
  with step pong show ?thesis by blast
qed

theorem unknown_or_pong_ignored_witness:
  "\<not> known_type (envelope_type (tagged ''heartbeat''))
   \<and> onLastMessage (host_at 0) initialState (tagged ''heartbeat'')
       = Inr (initialState, [ConsoleLog (Some (JStr ''heartbeat''))])
   \<and> process initialState [(host_at 0, tagged ''heartbeat''), (host_at 1, update_P1 ''zscore'' two)]
       = process initialState [(host_at 1, update_P1 ''zscore'' two)]"
proof -
  have h: "\<not> known_type (envelope_type (tagged ''heartbeat'')) \<or> is_str (envelope_type (tagged ''heartbeat'')) ''pong''"
    by (simp add: known_type_def tagged_def)
  have l: "onLastMessage (host_at 0) initialState (tagged ''heartbeat'')
       = Inr (initialState, [ConsoleLog (Some (JStr ''heartbeat''))])"
    by (simp add: onLastMessage_def handleWebSocketMessage_def tagged_def)
  from unknown_or_pong_ignored [OF h, of "host_at 0" initialState "[(host_at 1, update_P1 ''zscore'' two)]"]
  have "process initialState [(host_at 0, tagged ''heartbeat''), (host_at 1, update_P1 ''zscore'' two)]
       = process initialState [(host_at 1, update_P1 ''zscore'' two)]" by blast
  moreover have "\<not> known_type (envelope_type (tagged ''heartbeat''))"
    by (simp add: known_type_def tagged_def)
  ultimately show ?thesis using l by blast
qed

subsection \<open>Clearing the alerts\<close>

text \<open>
  C9. \<^verbatim>\<open>clearAlerts\<close> succeeds, empties the alert sequence, leaves pairs, prices and
  system status as they were, and returns the client untouched: no frame is handed to
  any transport.
\<close>

theorem clearAlerts_local:
  "\<exists>s'. actions ClearAlerts (s, c) = Inr (s', c)
         \<and> alerts s' = [] \<and> pairs s' = pairs s \<and> prices s' = prices s
         \<and> systemStatus s' = systemStatus s"
  by simp

subsection \<open>Payloads without their key field\<close>

text \<open>
  C10. A \<^verbatim>\<open>pair_update\<close> whose data object has no \<^verbatim>\<open>pair_id\<close> raises nothing: the data
  are merged into the pair entry under the key \<^verbatim>\<open>undefined\<close>. A \<^verbatim>\<open>price_update\<close> whose
  data object has no \<^verbatim>\<open>symbol\<close> raises nothing: the data are stored as the price entry
  under the key \<^verbatim>\<open>undefined\<close>. In both cases every other field of the state is unchanged.
\<close>

theorem missing_key_total:
  "(e ''type'' = Some (JStr ''pair_update'') \<and> e ''data'' = Some (JObj d) \<and> d ''pair_id'' = None
      \<longrightarrow> onLastMessage h s (JObj e) =
            Inr (s\<lparr>pairs := (pairs s)
                   (''undefined'' \<mapsto> JObj (own_props (pairs s ''undefined'') ++ d))\<rparr>, []))
   \<and> (e ''type'' = Some (JStr ''price_update'') \<and> e ''data'' = Some (JObj d) \<and> d ''symbol'' = None
      \<longrightarrow> onLastMessage h s (JObj e) =
            Inr (s\<lparr>prices := (prices s)(''undefined'' \<mapsto> JObj d)\<rparr>, []))"
  by (simp add: onLastMessage_def handleWebSocketMessage_def)

theorem missing_key_total_witness:
  "onLastMessage (host_at 0) initialState
     (JObj [''type'' \<mapsto> JStr ''pair_update'', ''data'' \<mapsto> JObj [''zscore'' \<mapsto> JNum two]])
     = Inr (initialState\<lparr>pairs := [''undefined'' \<mapsto> JObj [''zscore'' \<mapsto> JNum two]]\<rparr>, [])
   \<and> onLastMessage (host_at 0) initialState
     (JObj [''type'' \<mapsto> JStr ''price_update'', ''data'' \<mapsto> JObj [''price'' \<mapsto> JNum (Number ''2850'' (Some 2850))]])
     = Inr (initialState\<lparr>prices := [''undefined'' \<mapsto> JObj [''price'' \<mapsto> JNum (Number ''2850'' (Some 2850))]]\<rparr>, [])"
  using missing_key_total [of "[''type'' \<mapsto> JStr ''pair_update'', ''data'' \<mapsto> JObj [''zscore'' \<mapsto> JNum two]]"
      "[''zscore'' \<mapsto> JNum two]" "host_at 0" initialState]
    missing_key_total [of "[''type'' \<mapsto> JStr ''price_update'', ''data'' \<mapsto> JObj [''price'' \<mapsto> JNum (Number ''2850'' (Some 2850))]]"
      "[''price'' \<mapsto> JNum (Number ''2850'' (Some 2850))]" "host_at 0" initialState]
  by (simp add: initialState_def)

subsection \<open>Alert identifiers and timestamps\<close>

lemma alert_record_id: "alert_record (h, m) ''id'' = Some (Plain (JNum (now h)))"
  by (simp add: alert_record_def alert_payload_def)

lemma alert_record_timestamp:
  "alert_record (h, m) ''timestamp'' =
     Some (DateObj (new_Date (date_parse h) (read_prop (envelope_data m) ''timestamp'')))"
  by (simp add: alert_record_def alert_payload_def)

text \<open>
  The identifier of a stored alert is not a receipt counter. Two different alerts
  processed at the same clock reading carry the same identifier, and where the clock
  steps back between two alerts the later one (at index 0) has the smaller identifier.
\<close>

theorem alert_ids_counterexample:
  "alert_ids [(host_at 1000, alert_at ''2024-09-26T10:30:15Z''),
              (host_at 1000, alert_at ''2024-09-26T10:30:16Z'')]
     = [Some (Plain (JNum (clock_number 1000))), Some (Plain (JNum (clock_number 1000)))]
   \<and> alert_ids [(host_at 2000, alert_at ''2024-09-26T10:30:15Z''),
                (host_at 1000, alert_at ''2024-09-26T10:30:16Z'')]
     = [Some (Plain (JNum (clock_number 1000))), Some (Plain (JNum (clock_number 2000)))]"
  by (simp add: alert_ids_def onLastMessage_def handleWebSocketMessage_def alert_at_def
      host_at_def initialState_def alert_payload_def show_alert_notification_def)

text \<open>
  C6, as the code has it. For every processed alert envelope the record placed at index 0
  has as identifier the reading of the host clock (\<^verbatim>\<open>Date.now()\<close>, in milliseconds) taken
  while the envelope is handled, and as timestamp the Date constructed from the
  envelope's \<^verbatim>\<open>timestamp\<close> field: for a string, the Date that the host's date parser gives.
\<close>

theorem alert_id_is_clock_reading:
  assumes "alert_envelope m"
  shows "\<exists>s' out. onLastMessage h s m = Inr (s', out)
           \<and> alerts s' \<noteq> []
           \<and> hd (alerts s') ''id'' = Some (Plain (JNum (now h)))
           \<and> hd (alerts s') ''timestamp'' =
               Some (DateObj (new_Date (date_parse h) (read_prop (envelope_data m) ''timestamp'')))
           \<and> (\<forall>ts. read_prop (envelope_data m) ''timestamp'' = Some (JStr ts) \<longrightarrow>
                 hd (alerts s') ''timestamp'' = Some (DateObj (date_parse h ts)))"
proof -
  from handle_alert [OF assms] obtain out where
    step: "onLastMessage h s m =
             Inr (s\<lparr>alerts := alert_record (h, m) # take 49 (alerts s)\<rparr>, out)"
    by blast
  show ?thesis
    by (intro exI conjI, rule step) (auto simp: alert_record_id alert_record_timestamp)
qed

theorem alert_id_is_clock_reading_witness:
  "alert_envelope (alert_at ''2024-09-26T10:30:15Z'')
   \<and> (\<exists>s' out. onLastMessage iso_host initialState (alert_at ''2024-09-26T10:30:15Z'') = Inr (s', out)
         \<and> hd (alerts s') ''id'' = Some (Plain (JNum (clock_number 1727346620000)))
         \<and> hd (alerts s') ''timestamp'' = Some (DateObj (Some 1727346615000)))"
proof -
  have ts: "read_prop (envelope_data (alert_at ''2024-09-26T10:30:15Z'')) ''timestamp''
              = Some (JStr ''2024-09-26T10:30:15Z'')"
    by (simp add: alert_at_def read_prop_def)
  from alert_id_is_clock_reading [OF alert_at_envelope, of iso_host initialState "''2024-09-26T10:30:15Z''"]
  obtain s' out where
    "onLastMessage iso_host initialState (alert_at ''2024-09-26T10:30:15Z'') = Inr (s', out)"
    "hd (alerts s') ''id'' = Some (Plain (JNum (now iso_host)))"
    "\<forall>ts. read_prop (envelope_data (alert_at ''2024-09-26T10:30:15Z'')) ''timestamp'' = Some (JStr ts) \<longrightarrow>
                 hd (alerts s') ''timestamp'' = Some (DateObj (date_parse iso_host ts))"
    by blast
  then show ?thesis
    using alert_at_envelope ts by (auto simp: iso_host_def)
qed

subsection \<open>Notification permission\<close>

text \<open>
  C5. On a host with no Notification API the promise of
  \<^verbatim>\<open>requestNotificationPermission\<close> does not resolve to \<^verbatim>\<open>false\<close>: it rejects with a
  ReferenceError.
\<close>

theorem requestNotificationPermission_no_api:
  "requestNotificationPermission (host_at 0) = Inl ReferenceError"
  by (simp add: requestNotificationPermission_def host_at_def)

section \<open>Properties of the connection manager\<close>

subsection \<open>Closures in the mounted hook\<close>

lemma set_ready_frame [simp]:
  "timers (set_ready i r c) = timers c"
  "reconnectAttempts (set_ready i r c) = reconnectAttempts c"
  "reconnectTimeout (set_ready i r c) = reconnectTimeout c"
  "socket (set_ready i r c) = socket c"
  "effectSocket (set_ready i r c) = effectSocket c"
  "length (transports (set_ready i r c)) = length (transports c)"
  by (simp_all add: set_ready_def)

lemma ws_close_frame [simp]:
  "timers (ws_close i c) = timers c"
  "reconnectAttempts (ws_close i c) = reconnectAttempts c"
  "reconnectTimeout (ws_close i c) = reconnectTimeout c"
  "socket (ws_close i c) = socket c"
  "effectSocket (ws_close i c) = effectSocket c"
  "length (transports (ws_close i c)) = length (transports c)"
  by (simp_all add: ws_close_def)

lemma clearTimeout_frame [simp]:
  "reconnectAttempts (clearTimeout t c) = reconnectAttempts c"
  "reconnectTimeout (clearTimeout t c) = reconnectTimeout c"
  "socket (clearTimeout t c) = socket c"
  "effectSocket (clearTimeout t c) = effectSocket c"
  "transports (clearTimeout t c) = transports c"
  by (simp_all add: clearTimeout_def)

lemma clearTimeout_pending:
  "timers c = ts @ [(d, Pending)] \<Longrightarrow>
     timers (clearTimeout (length ts) c) = ts @ [(d, Cleared)]"
  by (simp add: clearTimeout_def)

lemma clearTimeout_cleared:
  "timers c = ts @ [(d, Cleared)] \<Longrightarrow> timers (clearTimeout (length ts) c) = timers c"
  by (simp add: clearTimeout_def)

lemma disconnect_frame [simp]:
  "reconnectAttempts (disconnect s c) = reconnectAttempts c"
  "reconnectTimeout (disconnect s c) = reconnectTimeout c"
  "socket (disconnect s c) = socket c"
  "effectSocket (disconnect s c) = effectSocket c"
  "length (transports (disconnect s c)) = length (transports c)"
  by (simp_all add: disconnect_def Let_def split: option.splits)

lemma disconnect_timers:
  "reconnectTimeout c = Some t \<Longrightarrow> timers (disconnect s c) = timers (clearTimeout t c)"
  by (simp add: disconnect_def Let_def split: option.splits)

lemma connect_frame [simp]:
  "timers (connect b c) = timers c"
  "reconnectAttempts (connect b c) = reconnectAttempts c"
  "reconnectTimeout (connect b c) = reconnectTimeout c"
  "effectSocket (connect b c) = effectSocket c"
  "socket (connect True c) = Some (length (transports c))"
  "length (transports (connect True c)) = Suc (length (transports c))"
  by (simp_all add: connect_def)

lemma onclose_schedules:
  assumes "code \<noteq> 1000" and "reconnectAttempts c < 5"
  shows "timers (ws_onclose i code c) = timers c @ [(2 ^ reconnectAttempts c * 1000, Pending)]"
    and "reconnectTimeout (ws_onclose i code c) = Some (length (timers c))"
    and "socket (ws_onclose i code c) = None"
    and "reconnectAttempts (ws_onclose i code c) = reconnectAttempts c"
    and "effectSocket (ws_onclose i code c) = effectSocket c"
    and "length (transports (ws_onclose i code c)) = length (transports c)"
  using assms by (simp_all add: ws_onclose_def maxReconnectAttempts_def Let_def)

text \<open>
  The commit after a closure: the stored socket is \<^verbatim>\<open>null\<close> and differs from the one the
  effect last ran with, so the cleanup clears the timer just scheduled and the body
  constructs a transport at once.
\<close>

lemma effect_after_closure:
  assumes "socket c = None" and "effectSocket c \<noteq> None"
    and "reconnectTimeout c = Some (length ts)" and "timers c = ts @ [(d, Pending)]"
  shows "timers (connection_effect True c) = ts @ [(d, Cleared)]"
    and "reconnectTimeout (connection_effect True c) = Some (length ts)"
    and "socket (connection_effect True c) = Some (length (transports c))"
    and "effectSocket (connection_effect True c) = None"
    and "reconnectAttempts (connection_effect True c) = reconnectAttempts c"
    and "length (transports (connection_effect True c)) = Suc (length (transports c))"
  using assms
  by (auto simp: connection_effect_def disconnect_timers clearTimeout_pending)

lemma effect_after_connect:
  assumes "socket c = Some n" and "effectSocket c = None"
    and "reconnectTimeout c = Some (length ts)" and "timers c = ts @ [(d, Cleared)]"
  shows "timers (connection_effect True c) = ts @ [(d, Cleared)]"
    and "effectSocket (connection_effect True c) = Some n"
    and "reconnectAttempts (connection_effect True c) = reconnectAttempts c"
    and "length (transports (connection_effect True c)) = Suc (length (transports c))"
  using assms
  by (auto simp: connection_effect_def disconnect_timers clearTimeout_cleared)

lemma mounted_closure_step:
  assumes "effectSocket c \<noteq> None" and "code \<noteq> 1000" and "reconnectAttempts c < 5"
  shows "timers (mounted_closure code c) = timers c @ [(2 ^ reconnectAttempts c * 1000, Cleared)]"
    and "reconnectAttempts (mounted_closure code c) = reconnectAttempts c"
    and "effectSocket (mounted_closure code c) \<noteq> None"
    and "length (transports (mounted_closure code c)) = length (transports c) + 2"
proof -
  let ?c1 = "ws_onclose (newest c) code c"
  let ?c2 = "connection_effect True ?c1"
  note s = onclose_schedules [OF assms(2,3), of "newest c"]
  have e: "effectSocket ?c1 \<noteq> None" using assms(1) by (simp add: s(5))
  note a = effect_after_closure [OF s(3) e s(2) s(1)]
  note b = effect_after_connect [OF a(3) a(4) a(2) a(1)]
  show "timers (mounted_closure code c) = timers c @ [(2 ^ reconnectAttempts c * 1000, Cleared)]"
    by (simp add: mounted_closure_def b(1))
  show "reconnectAttempts (mounted_closure code c) = reconnectAttempts c"
    by (simp add: mounted_closure_def b(3) a(5) s(4))
  show "effectSocket (mounted_closure code c) \<noteq> None"
    by (simp add: mounted_closure_def b(2))
  show "length (transports (mounted_closure code c)) = length (transports c) + 2"
    by (simp add: mounted_closure_def b(4) a(6) s(6))
qed

text \<open>
  In the mounted hook a run of closures with codes other than 1000, from attempt counter
  0: every closure schedules a reconnect after 1000 ms, which the effect's cleanup clears
  at the next commit; the counter stays 0, and each closure is followed by two
  constructions of a transport.
\<close>

lemma mounted_closures_run:
  assumes "\<forall>code \<in> set codes. code \<noteq> 1000"
    and "effectSocket c \<noteq> None" and "reconnectAttempts c = 0"
  shows "timers (mounted_closures codes c) = timers c @ replicate (length codes) (1000, Cleared)
         \<and> reconnectAttempts (mounted_closures codes c) = 0
         \<and> length (transports (mounted_closures codes c)) = length (transports c) + 2 * length codes"
  using assms
proof (induction codes arbitrary: c)
  case Nil
  then show ?case by simp
next
  case (Cons code codes)
  from Cons.prems have ab: "code \<noteq> 1000" and rest: "\<forall>code \<in> set codes. code \<noteq> 1000"
    by simp_all
  from Cons.prems have lt: "reconnectAttempts c < 5" by simp
  note step = mounted_closure_step [OF Cons.prems(2) ab lt]
  have z: "reconnectAttempts (mounted_closure code c) = 0"
    using step(2) Cons.prems(3) by simp
  from Cons.IH [OF rest step(3) z] show ?case
    by (simp add: step(1,4) Cons.prems(3) replicate_app_Cons_same)
qed

lemma mounted_hook_start:
  "effectSocket mounted_hook \<noteq> None" "reconnectAttempts mounted_hook = 0"
  "timers mounted_hook = []" "length (transports mounted_hook) = 3"
  by (simp_all add: mounted_hook_def mount_def connection_effect_def connect_def disconnect_def
      initialClient_def ws_close_def ready_def set_ready_def)

text \<open>
  C3. The claim is that up to five consecutive abnormal closures schedule reconnects after
  1, 2, 4, 8 and 16 seconds, and that a further one schedules none. In the mounted hook,
  six consecutive abnormal closures schedule six reconnects, every one after 1000 ms and
  every one cleared by the effect's cleanup before it can fire; no timer is left pending,
  the attempt counter is still 0, and the effect has reconnected by itself after each
  closure, so that 15 transports have been constructed.
\<close>

theorem mounted_reconnect_without_backoff:
  "timers (mounted_closures (replicate 6 abnormal) mounted_hook) = replicate 6 (1000, Cleared)
   \<and> delays (mounted_closures (replicate 6 abnormal) mounted_hook)
       = [1000, 1000, 1000, 1000, 1000, 1000]
   \<and> pending (mounted_closures (replicate 6 abnormal) mounted_hook) = []
   \<and> reconnectAttempts (mounted_closures (replicate 6 abnormal) mounted_hook) = 0
   \<and> length (transports (mounted_closures (replicate 6 abnormal) mounted_hook)) = 15"
proof -
  have h: "\<forall>code \<in> set (replicate 6 abnormal). code \<noteq> 1000"
    by (simp add: abnormal_def)
  from mounted_closures_run [OF h mounted_hook_start(1,2)]
  have t: "timers (mounted_closures (replicate 6 abnormal) mounted_hook) = replicate 6 (1000, Cleared)"
    and r: "reconnectAttempts (mounted_closures (replicate 6 abnormal) mounted_hook) = 0"
    and n: "length (transports (mounted_closures (replicate 6 abnormal) mounted_hook)) = 15"
    by (simp_all add: mounted_hook_start(3,4))
  have six: "replicate 6 x = [x, x, x, x, x, x]" for x :: "'a"
    by (simp add: numeral_eq_Suc)
  from t have "delays (mounted_closures (replicate 6 abnormal) mounted_hook)
                 = [1000, 1000, 1000, 1000, 1000, 1000]"
    by (simp add: delays_def six)
  moreover from t have "pending (mounted_closures (replicate 6 abnormal) mounted_hook) = []"
    by (simp add: pending_def)
  ultimately show ?thesis using t r n by simp
qed

subsection \<open>Connecting\<close>

lemma connect_funpow_length:
  "length (transports ((connect True ^^ n) c)) = length (transports c) + n"
  by (induction n) simp_all

text \<open>
  \<^verbatim>\<open>connect()\<close> called on a client whose stored socket is open constructs a second
  transport and stores it as the socket.
\<close>

theorem connect_again_counterexample:
  "length (transports (ws_onopen 0 (connect True initialClient))) = 1
   \<and> connection_open (ws_onopen 0 (connect True initialClient))
   \<and> length (transports (connect True (ws_onopen 0 (connect True initialClient)))) = 2
   \<and> socket (connect True (ws_onopen 0 (connect True initialClient))) = Some 1
   \<and> ready (connect True (ws_onopen 0 (connect True initialClient))) 1 = Some CONNECTING"
  by (simp add: ws_onopen_def connect_def initialClient_def set_ready_def ready_def
      connection_open_def)

text \<open>
  C4, as the code has it. \<^verbatim>\<open>connect()\<close> tests nothing and is never a no-op: in every
  state of the client, a call in which the transport can be constructed constructs one,
  connecting, and stores it as the socket, so that \<open>n\<close> calls construct \<open>n\<close>
  transports; a call in which construction throws adds no transport, keeps the stored
  socket and records the error.
\<close>

theorem connect_constructs_every_time:
  "length (transports ((connect True ^^ n) c)) = length (transports c) + n
   \<and> socket (connect True c) = Some (length (transports c))
   \<and> ready (connect True c) (length (transports c)) = Some CONNECTING
   \<and> connect True c \<noteq> c
   \<and> length (transports (connect False c)) = length (transports c)
   \<and> socket (connect False c) = socket c
   \<and> connectionError (connect False c) = Some ''Failed to create WebSocket connection''"
proof -
  have "connect True c \<noteq> c"
  proof
    assume eq: "connect True c = c"
    have "length (transports (connect True c)) = Suc (length (transports c))" by simp
    then show False unfolding eq by simp
  qed
  then show ?thesis
    by (simp add: connect_funpow_length) (simp add: connect_def ready_def)
qed

subsection \<open>Sending\<close>

lemma ws_send_sent:
  "i < length (transports c) \<Longrightarrow>
     sent (transports (ws_send i m c) ! i) = sent (transports c ! i) @ [m]"
  by (simp add: ws_send_def)

lemma ready_Some_less: "ready c i = Some r \<Longrightarrow> i < length (transports c)"
  by (simp add: ready_def split: if_splits)

text \<open>
  C7. \<^verbatim>\<open>sendMessage\<close> always returns a boolean and raises nothing. The boolean is true
  exactly when the stored socket is open, and then the message has been handed to that
  transport as its latest frame; when it is false the client is unchanged, so nothing
  was transmitted.
\<close>

theorem sendMessage_reports:
  assumes "sendMessage m c = (b, c')"
  shows "(b \<longleftrightarrow> connection_open c)
         \<and> (b \<longrightarrow> (\<exists>i. socket c = Some i \<and> c' = ws_send i m c
                      \<and> sent (transports c' ! i) = sent (transports c ! i) @ [m]))
         \<and> (\<not> b \<longrightarrow> c' = c)"
proof (cases "socket c")
  case None
  with assms show ?thesis by (simp add: sendMessage_def connection_open_def)
next
  case (Some i)
  show ?thesis
  proof (cases "ready c i = Some OPEN")
    case True
    with assms Some have "b" and c': "c' = ws_send i m c"
      by (simp_all add: sendMessage_def)
    moreover have "connection_open c" by (simp add: connection_open_def Some True)
    moreover have "sent (transports c' ! i) = sent (transports c ! i) @ [m]"
      unfolding c' by (rule ws_send_sent [OF ready_Some_less [OF True]])
    ultimately show ?thesis using Some by simp
  next
    case False
    with assms Some have "\<not> b" and "c' = c"
      by (simp_all add: sendMessage_def)
    moreover have "\<not> connection_open c" by (simp add: connection_open_def Some False)
    ultimately show ?thesis by simp
  qed
qed

theorem sendMessage_reports_witness:
  "sendMessage (JObj [''type'' \<mapsto> JStr ''start_monitoring'']) initialClient = (False, initialClient)
   \<and> \<not> connection_open initialClient
   \<and> fst (sendMessage (JObj [''type'' \<mapsto> JStr ''start_monitoring''])
            (ws_onopen 0 (connect True initialClient)))
   \<and> connection_open (ws_onopen 0 (connect True initialClient))"
proof -
  let ?m = "JObj [''type'' \<mapsto> JStr ''start_monitoring'']"
  let ?c = "ws_onopen 0 (connect True initialClient)"
  have e1: "sendMessage ?m initialClient = (False, initialClient)"
    by (simp add: sendMessage_def initialClient_def)
  have o: "connection_open ?c"
    by (simp add: connection_open_def ws_onopen_def connect_def initialClient_def
        set_ready_def ready_def)
  have e2: "sendMessage ?m ?c = (fst (sendMessage ?m ?c), snd (sendMessage ?m ?c))"
    by simp
  from sendMessage_reports [OF e1] have n: "\<not> connection_open initialClient" by simp
  from sendMessage_reports [OF e2] o have t: "fst (sendMessage ?m ?c)" by simp
  from e1 n t o show ?thesis by simp
qed

end
